theory Spec2Isabelle
  imports Complex_Main "HOL-Library.AList" "HOL-Library.Multiset"
begin

section \<open>Patient Management System: data model\<close>

text \<open>
  The service keeps every patient in one JSON document, \<^verbatim>\<open>patients.json\<close>: an object
  whose keys are patient ids and whose values are objects. Python reads it with
  \<^verbatim>\<open>json.load\<close> into a \<^verbatim>\<open>dict\<close> of \<^verbatim>\<open>dict\<close>s, which keep insertion order; both
  levels are association lists here. A Python \<^verbatim>\<open>float\<close> is idealised as a real number:
  neither rounding of the arithmetic, nor overflow, infinities or NaN are modelled.
\<close>

datatype json =
    JNull
  | JBool bool
  | JInt int
  | JFloat real
  | JStr string
  | JArr "json list"
  | JObj "(string \<times> json) list"

type_synonym dict = "(string \<times> json) list"
type_synonym store = "(string \<times> dict) list"

text \<open>
  \<^verbatim>\<open>HTTPException(status_code, detail)\<close> is what the handlers raise themselves;
  \<^verbatim>\<open>ValidationError\<close> is what pydantic raises when a model cannot be built, with the
  names of the offending fields in the order of the class.
\<close>

datatype error =
    HTTPException nat string
  | ValidationError "string list"

datatype response = JSONResponse nat dict

subsection \<open>Field validation\<close>

text \<open>
  A \<^verbatim>\<open>str\<close> field takes a string and nothing else. An \<^verbatim>\<open>int\<close> field takes an integer,
  a \<^verbatim>\<open>float\<close> field a float or an integer. What pydantic's lax mode makes of any other
  JSON value (a numeric string, a boolean, a float without fraction) is the library's
  business and not the repository's: it is the parameter \<open>C\<close> of the validators.
\<close>

record coercion =
  lax_int :: "json \<Rightarrow> int option"
  lax_float :: "json \<Rightarrow> real option"

definition str_validator :: "json \<Rightarrow> string option" where
  "str_validator v = (case v of JStr s \<Rightarrow> Some s | _ \<Rightarrow> None)"

definition int_validator :: "coercion \<Rightarrow> json \<Rightarrow> int option" where
  "int_validator C v = (case v of JInt n \<Rightarrow> Some n | _ \<Rightarrow> lax_int C v)"

definition float_validator :: "coercion \<Rightarrow> json \<Rightarrow> real option" where
  "float_validator C v =
     (case v of JFloat r \<Rightarrow> Some r | JInt n \<Rightarrow> Some (real_of_int n) | _ \<Rightarrow> lax_float C v)"

text \<open>\<^verbatim>\<open>age\<close>: \<^verbatim>\<open>Field(..., gt=0, lt=120)\<close>.\<close>

definition age_validator :: "coercion \<Rightarrow> json \<Rightarrow> int option" where
  "age_validator C v =
     (case int_validator C v of
        None \<Rightarrow> None
      | Some n \<Rightarrow> if 0 < n \<and> n < 120 then Some n else None)"

text \<open>\<^verbatim>\<open>gender\<close>: \<^verbatim>\<open>Literal['Male','Female','Other']\<close>.\<close>

definition gender_validator :: "json \<Rightarrow> string option" where
  "gender_validator v =
     (case v of
        JStr s \<Rightarrow> if s \<in> set [''Male'', ''Female'', ''Other''] then Some s else None
      | _ \<Rightarrow> None)"

text \<open>\<^verbatim>\<open>height\<close> and \<^verbatim>\<open>weight\<close>: \<^verbatim>\<open>Field(..., gt=0)\<close>.\<close>

definition positive_validator :: "coercion \<Rightarrow> json \<Rightarrow> real option" where
  "positive_validator C v =
     (case float_validator C v of
        None \<Rightarrow> None
      | Some r \<Rightarrow> if 0 < r then Some r else None)"

text \<open>Every field is required (\<^verbatim>\<open>Field(...)\<close>): a missing key fails like a bad value.\<close>

definition field :: "dict \<Rightarrow> string \<Rightarrow> (json \<Rightarrow> 'a option) \<Rightarrow> 'a option" where
  "field kw f validator = (case map_of kw f of None \<Rightarrow> None | Some v \<Rightarrow> validator v)"

definition failed :: "string \<Rightarrow> 'a option \<Rightarrow> string list" where
  "failed f r = (case r of None \<Rightarrow> [f] | Some _ \<Rightarrow> [])"

subsection \<open>The Patient model\<close>

record Patient =
  id_f :: string
  name :: string
  city :: string
  age :: int
  gender :: string
  height :: real
  weight :: real

text \<open>
  \<^verbatim>\<open>Patient(**kw)\<close>. Keys of \<open>kw\<close> that are not fields are ignored (pydantic's default),
  so a stored record that carries \<^verbatim>\<open>bmi\<close> and \<^verbatim>\<open>verdict\<close> can be fed back in.
\<close>

definition Patient_init :: "coercion \<Rightarrow> dict \<Rightarrow> error + Patient" where
  "Patient_init C kw =
     (let i = field kw ''id'' str_validator;
          n = field kw ''name'' str_validator;
          c = field kw ''city'' str_validator;
          a = field kw ''age'' (age_validator C);
          g = field kw ''gender'' gender_validator;
          h = field kw ''height'' (positive_validator C);
          w = field kw ''weight'' (positive_validator C);
          errors = failed ''id'' i @ failed ''name'' n @ failed ''city'' c @ failed ''age'' a
                   @ failed ''gender'' g @ failed ''height'' h @ failed ''weight'' w
      in if errors = []
         then Inr \<lparr>id_f = the i, name = the n, city = the c, age = the a,
                   gender = the g, height = the h, weight = the w\<rparr>
         else Inl (ValidationError errors))"

text \<open>
  Python's \<^verbatim>\<open>round(x, 2)\<close>: the nearest multiple of \<open>1/100\<close>, a tie going to the even
  hundredth.
\<close>

definition round2 :: "real \<Rightarrow> real" where
  "round2 x =
     (let y = x * 100; f = \<lfloor>y\<rfloor>; d = y - real_of_int f
      in real_of_int (if d < 1/2 then f else if 1/2 < d then f + 1
                      else if even f then f else f + 1) / 100)"

text \<open>
  The computed fields. \<open>height\<close> is positive for every object \<open>Patient_init\<close> builds, so
  the division is by a positive number there.
\<close>

definition bmi :: "Patient \<Rightarrow> real" where
  "bmi self = round2 (weight self / (height self)\<^sup>2)"

definition verdict :: "Patient \<Rightarrow> string" where
  "verdict self =
     (if bmi self < 18.5 then ''Underweight''
      else if 18.5 \<le> bmi self \<and> bmi self < 25 then ''Normal weight''
      else if 25 \<le> bmi self \<and> bmi self < 30 then ''Overweight''
      else ''Obese'')"

text \<open>\<^verbatim>\<open>model_dump()\<close>: the fields in class order, then the computed fields.\<close>

definition model_dump :: "Patient \<Rightarrow> dict" where
  "model_dump p =
     [(''id'', JStr (id_f p)), (''name'', JStr (name p)), (''city'', JStr (city p)),
      (''age'', JInt (age p)), (''gender'', JStr (gender p)),
      (''height'', JFloat (height p)), (''weight'', JFloat (weight p)),
      (''bmi'', JFloat (bmi p)), (''verdict'', JStr (verdict p))]"

definition model_dump_exclude :: "string list \<Rightarrow> Patient \<Rightarrow> dict" where
  "model_dump_exclude ex p = filter (\<lambda>(k, v). k \<notin> set ex) (model_dump p)"

subsection \<open>The PatientUpdate model\<close>

text \<open>
  Every field is optional with default \<^verbatim>\<open>None\<close>; pydantic remembers which fields the
  request set. \<open>Given None\<close> is a field the request set to \<^verbatim>\<open>null\<close>.
\<close>

datatype 'a optional = Unset | Given "'a option"

record PatientUpdate =
  name_u :: "string optional"
  city_u :: "string optional"
  age_u :: "int optional"
  gender_u :: "string optional"
  height_u :: "real optional"
  weight_u :: "real optional"

definition dump_set :: "string \<Rightarrow> ('a \<Rightarrow> json) \<Rightarrow> 'a optional \<Rightarrow> dict" where
  "dump_set f j x =
     (case x of Unset \<Rightarrow> [] | Given None \<Rightarrow> [(f, JNull)] | Given (Some v) \<Rightarrow> [(f, j v)])"

text \<open>\<^verbatim>\<open>model_dump(exclude_unset=True)\<close>.\<close>

definition model_dump_exclude_unset :: "PatientUpdate \<Rightarrow> dict" where
  "model_dump_exclude_unset u =
     dump_set ''name'' JStr (name_u u) @ dump_set ''city'' JStr (city_u u)
     @ dump_set ''age'' JInt (age_u u) @ dump_set ''gender'' JStr (gender_u u)
     @ dump_set ''height'' JFloat (height_u u) @ dump_set ''weight'' JFloat (weight_u u)"

section \<open>Record store\<close>

text \<open>
  The state is the content of \<^verbatim>\<open>patients.json\<close>, taken as present and well formed.
  \<^verbatim>\<open>load_data\<close> reads all of it, \<^verbatim>\<open>save_data\<close> overwrites all of it.
\<close>

definition load_data :: "store \<Rightarrow> store" where
  "load_data file = file"

definition save_data :: "store \<Rightarrow> store \<Rightarrow> store" where
  "save_data data file = data"

section \<open>Request handlers\<close>

text \<open>
  A handler takes the file and its arguments and returns what it answers, or the
  exception it raises, together with the file afterwards.
\<close>

definition hello :: "dict" where
  "hello = [(''message'', JStr ''Patient Management System API '')]"

definition about :: "dict" where
  "about = [(''message'', JStr ''A fully Functional API to manage your patient records.'')]"

definition view :: "store \<Rightarrow> store \<times> store" where
  "view file = (let data = load_data file in (data, file))"


text \<open>
  The loop of \<^verbatim>\<open>sort_patients\<close>: each record, with its key as \<^verbatim>\<open>id\<close>, becomes a
  \<open>Patient\<close> and is dumped with its computed fields. The first record that does not
  validate ends the request.
\<close>

fun enrich :: "coercion \<Rightarrow> store \<Rightarrow> error + dict list" where
  "enrich C [] = Inr []"
| "enrich C ((pid, info) # rest) =
     (let info_with_id = AList.update ''id'' (JStr pid) info
      in case Patient_init C info_with_id of
           Inl e \<Rightarrow> Inl e
         | Inr patient_obj \<Rightarrow>
             (case enrich C rest of
                Inl e \<Rightarrow> Inl e
              | Inr enriched_data \<Rightarrow> Inr (model_dump patient_obj # enriched_data)))"

text \<open>\<^verbatim>\<open>x.get(k, default)\<close>.\<close>

definition get :: "dict \<Rightarrow> string \<Rightarrow> json \<Rightarrow> json" where
  "get x k d = (case map_of x k of Some v \<Rightarrow> v | None \<Rightarrow> d)"

text \<open>
  The number a sort key is compared by. Only the first two cases arise: the key of an
  enriched record is the float \<open>model_dump\<close> put there.
\<close>

fun number :: "json \<Rightarrow> real" where
  "number (JFloat r) = r"
| "number (JInt n) = real_of_int n"
| "number _ = 0"

text \<open>
  \<^verbatim>\<open>sorted(xs, key=key, reverse=reverse)\<close>: a stable sort; with \<^verbatim>\<open>reverse\<close> the list
  is reversed, sorted and reversed again, which is how equal keys keep their order.
\<close>

definition sorted_py :: "('a \<Rightarrow> real) \<Rightarrow> bool \<Rightarrow> 'a list \<Rightarrow> 'a list" where
  "sorted_py key reverse xs =
     (if reverse then rev (sort_key key (rev xs)) else sort_key key xs)"

definition valid_fields :: "string list" where
  "valid_fields = [''height'', ''weight'', ''bmi'']"

definition sort_patients ::
  "coercion \<Rightarrow> store \<Rightarrow> string \<Rightarrow> string \<Rightarrow> (error + dict list) \<times> store" where
  "sort_patients C file sort_by order =
     (let data = load_data file
      in if sort_by \<notin> set valid_fields
         then (Inl (HTTPException 400
                 ''Invalid field. Select from ['height', 'weight', 'bmi']''), file)
         else if order \<notin> set [''asc'', ''desc'']
         then (Inl (HTTPException 400
                 ''Invalid order. Select between 'asc' and 'desc' ''), file)
         else case enrich C data of
                Inl e \<Rightarrow> (Inl e, file)
              | Inr enriched_data \<Rightarrow>
                  (let reverse = (if order = ''desc'' then True else False);
                       sorted_data = sorted_py (\<lambda>x. number (get x sort_by (JInt 0)))
                                       reverse enriched_data
                   in (Inr sorted_data, file)))"

definition create_patient :: "store \<Rightarrow> Patient \<Rightarrow> (error + response) \<times> store" where
  "create_patient file patient =
     (let data = load_data file
      in if id_f patient \<in> set (map fst data)
         then (Inl (HTTPException 400 ''Patient with this ID already exists''), file)
         else (let data' = AList.update (id_f patient)
                             (model_dump_exclude [''id''] patient) data
               in (Inr (JSONResponse 201
                      [(''message'', JStr ''Patient created successfully'')]),
                   save_data data' file)))"

text \<open>
  \<^verbatim>\<open>update_patient\<close> writes the payload's fields and the \<^verbatim>\<open>id\<close> into the record that
  sits inside \<open>data\<close>. That record is seen again only through \<open>data\<close>, which is saved
  after its entry has been replaced by the dump, and is dropped when \<open>Patient\<close> raises:
  the in-place writes are the local \<open>merged\<close> and \<open>with_id\<close> here.
\<close>

definition update_patient ::
  "coercion \<Rightarrow> store \<Rightarrow> string \<Rightarrow> PatientUpdate \<Rightarrow> (error + response) \<times> store" where
  "update_patient C file patient_id patient_update =
     (let data = load_data file
      in case map_of data patient_id of
           None \<Rightarrow> (Inl (HTTPException 404 ''Patient not found''), file)
         | Some existing_patient_info \<Rightarrow>
             (let updated_patient_info = model_dump_exclude_unset patient_update;
                  merged = fold (\<lambda>(key, value) d. AList.update key value d)
                             updated_patient_info existing_patient_info;
                  with_id = AList.update ''id'' (JStr patient_id) merged
              in case Patient_init C with_id of
                   Inl e \<Rightarrow> (Inl e, file)
                 | Inr patient_pydantic_obj \<Rightarrow>
                     (let data' = AList.update patient_id
                                    (model_dump_exclude [''id''] patient_pydantic_obj) data
                      in (Inr (JSONResponse 200
                             [(''message'', JStr ''Patient updated successfully'')]),
                          save_data data' file))))"

text \<open>
  The dictionary \<open>update_patient\<close> builds a \<open>Patient\<close> from: the stored record, overwritten
  with the fields the request set, and with the key as \<^verbatim>\<open>id\<close>.
\<close>

definition merged_info :: "string \<Rightarrow> PatientUpdate \<Rightarrow> dict \<Rightarrow> dict" where
  "merged_info patient_id patient_update existing_patient_info =
     AList.update ''id'' (JStr patient_id)
       (fold (\<lambda>(key, value) d. AList.update key value d)
          (model_dump_exclude_unset patient_update) existing_patient_info)"

definition delete_patient :: "store \<Rightarrow> string \<Rightarrow> (error + response) \<times> store" where
  "delete_patient file patient_id =
     (let data = load_data file
      in if patient_id \<notin> set (map fst data)
         then (Inl (HTTPException 404 ''Patient not found''), file)
         else (let data' = AList.delete patient_id data
               in (Inr (JSONResponse 200
                      [(''message'', JStr ''Patient deleted successfully'')]),
                   save_data data' file)))"

section \<open>Example data\<close>

text \<open>
  A coercion that converts nothing, one patient, the store that holds only that patient,
  and an update of the weight alone, for the concrete instances below.
\<close>

definition strict :: coercion where
  "strict = \<lparr>lax_int = (\<lambda>v. None), lax_float = (\<lambda>v. None)\<rparr>"

definition example_patient :: Patient where
  "example_patient =
     \<lparr>id_f = ''P001'', name = ''Ananya'', city = ''Guwahati'', age = 28,
      gender = ''Female'', height = 1.65, weight = 90\<rparr>"

definition example_store :: store where
  "example_store = [(''P001'', model_dump_exclude [''id''] example_patient)]"

definition example_update :: PatientUpdate where
  "example_update =
     \<lparr>name_u = Unset, city_u = Unset, age_u = Unset, gender_u = Unset,
      height_u = Unset, weight_u = Given (Some 60)\<rparr>"




section \<open>Association lists as dictionaries\<close>

lemma update_fresh: "k \<notin> fst ` set al \<Longrightarrow> AList.update k v al = al @ [(k, v)]"
  by (induction al) auto

lemma map_of_fresh: "k \<notin> fst ` set al \<Longrightarrow> map_of al k = None"
  by (simp add: map_of_eq_None_iff)

lemma delete_as_filter: "AList.delete k al = filter (\<lambda>(k', info). k' \<noteq> k) al"
  by (induction al) auto

lemma set_update_subset: "set (AList.update k v al) \<subseteq> insert (k, v) (set al)"
  by (induction al) auto

lemma set_delete_subset: "set (AList.delete k al) \<subseteq> set al"
  by (induction al) auto



section \<open>What the models dump and accept\<close>

lemma dump_without_id:
  "model_dump_exclude [''id''] p =
     [(''name'', JStr (name p)), (''city'', JStr (city p)), (''age'', JInt (age p)),
      (''gender'', JStr (gender p)), (''height'', JFloat (height p)),
      (''weight'', JFloat (weight p)), (''bmi'', JFloat (bmi p)),
      (''verdict'', JStr (verdict p))]"
  by (simp add: model_dump_exclude_def model_dump_def)

lemma keys_dump_without_id:
  "map fst (model_dump_exclude [''id''] p) =
     [''name'', ''city'', ''age'', ''gender'', ''height'', ''weight'', ''bmi'', ''verdict'']"
  by (simp add: dump_without_id)



lemma map_of_dump_set:
  "map_of (dump_set f j x) k =
     (if k = f then (case x of Unset \<Rightarrow> None | Given None \<Rightarrow> Some JNull
                      | Given (Some v) \<Rightarrow> Some (j v))
      else None)"
  by (simp add: dump_set_def split: optional.splits option.splits)

lemma field_str:
  "field kw f str_validator = Some s \<longleftrightarrow> map_of kw f = Some (JStr s)"
  by (auto simp: field_def str_validator_def split: option.splits json.splits)




lemma failed_Nil: "failed f r = [] \<longleftrightarrow> r \<noteq> None"
  by (simp add: failed_def split: option.splits)

lemma Patient_init_Inr:
  "Patient_init C kw = Inr p \<longleftrightarrow>
     field kw ''id'' str_validator = Some (id_f p)
     \<and> field kw ''name'' str_validator = Some (name p)
     \<and> field kw ''city'' str_validator = Some (city p)
     \<and> field kw ''age'' (age_validator C) = Some (age p)
     \<and> field kw ''gender'' gender_validator = Some (gender p)
     \<and> field kw ''height'' (positive_validator C) = Some (height p)
     \<and> field kw ''weight'' (positive_validator C) = Some (weight p)"
  unfolding Patient_init_def Let_def
  by (cases p) (auto simp: failed_Nil)

lemma Patient_init_Inl:
  "Patient_init C kw = Inl e \<Longrightarrow> \<exists>fields. e = ValidationError fields \<and> fields \<noteq> []"
  unfolding Patient_init_def Let_def
  by (auto split: if_splits)

section \<open>Create\<close>

lemma create_patient_conflict:
  "id_f p \<in> fst ` set file \<Longrightarrow>
   create_patient file p =
     (Inl (HTTPException 400 ''Patient with this ID already exists''), file)"
  by (simp add: create_patient_def load_data_def)

lemma create_patient_fresh:
  "id_f p \<notin> fst ` set file \<Longrightarrow>
   create_patient file p =
     (Inr (JSONResponse 201 [(''message'', JStr ''Patient created successfully'')]),
      file @ [(id_f p, model_dump_exclude [''id''] p)])"
  by (simp add: create_patient_def load_data_def save_data_def update_fresh)



section \<open>Delete\<close>

lemma delete_patient_absent:
  "k \<notin> fst ` set file \<Longrightarrow>
   delete_patient file k = (Inl (HTTPException 404 ''Patient not found''), file)"
  by (simp add: delete_patient_def load_data_def)

lemma delete_patient_present:
  "k \<in> fst ` set file \<Longrightarrow>
   delete_patient file k =
     (Inr (JSONResponse 200 [(''message'', JStr ''Patient deleted successfully'')]),
      AList.delete k file)"
  by (simp add: delete_patient_def load_data_def save_data_def)

text \<open>
  Claim C8. Deleting an id that is not in the store fails with status 404 and leaves the
  file as it was. Deleting an id that is in the store answers 200; afterwards that key is
  gone, every other key looks up what it did before, and the remaining entries stand in
  their old order.
\<close>

theorem delete_removes_exactly_key:
  "(k \<notin> fst ` set file \<longrightarrow>
      delete_patient file k = (Inl (HTTPException 404 ''Patient not found''), file))
   \<and> (k \<in> fst ` set file \<longrightarrow>
      (\<exists>content file'.
         delete_patient file k = (Inr (JSONResponse 200 content), file')
         \<and> map_of file' k = None
         \<and> k \<notin> fst ` set file'
         \<and> (\<forall>k'. k' \<noteq> k \<longrightarrow> map_of file' k' = map_of file k')
         \<and> file' = filter (\<lambda>(k', info). k' \<noteq> k) file))"
proof (intro conjI impI)
  assume "k \<notin> fst ` set file"
  then show "delete_patient file k = (Inl (HTTPException 404 ''Patient not found''), file)"
    by (rule delete_patient_absent)
next
  assume "k \<in> fst ` set file"
  then have "delete_patient file k =
     (Inr (JSONResponse 200 [(''message'', JStr ''Patient deleted successfully'')]),
      AList.delete k file)"
    by (rule delete_patient_present)
  moreover have "map_of (AList.delete k file) k = None"
    by (simp add: delete_conv')
  moreover have "k \<notin> fst ` set (AList.delete k file)"
    by (rule delete_notin_dom)
  moreover have "\<forall>k'. k' \<noteq> k \<longrightarrow> map_of (AList.delete k file) k' = map_of file k'"
    by simp
  moreover have "AList.delete k file = filter (\<lambda>(k', info). k' \<noteq> k) file"
    by (rule delete_as_filter)
  ultimately show "\<exists>content file'.
         delete_patient file k = (Inr (JSONResponse 200 content), file')
         \<and> map_of file' k = None
         \<and> k \<notin> fst ` set file'
         \<and> (\<forall>k'. k' \<noteq> k \<longrightarrow> map_of file' k' = map_of file k')
         \<and> file' = filter (\<lambda>(k', info). k' \<noteq> k) file"
    by blast
qed

theorem delete_removes_exactly_key_witness:
  "delete_patient [(''P001'', []), (''P002'', [(''name'', JStr ''B'')])] ''P003'' =
     (Inl (HTTPException 404 ''Patient not found''),
      [(''P001'', []), (''P002'', [(''name'', JStr ''B'')])])
   \<and> (\<exists>content.
         delete_patient [(''P001'', []), (''P002'', [(''name'', JStr ''B'')])] ''P001'' =
           (Inr (JSONResponse 200 content), [(''P002'', [(''name'', JStr ''B'')])]))"
proof -
  let ?file = "[(''P001'', []), (''P002'', [(''name'', JStr ''B'')])] :: store"
  have absent: "''P003'' \<notin> fst ` set ?file" and present: "''P001'' \<in> fst ` set ?file"
    by simp_all
  from delete_removes_exactly_key [of "''P003''" ?file] absent
  have "delete_patient ?file ''P003'' = (Inl (HTTPException 404 ''Patient not found''), ?file)"
    by blast
  moreover from delete_removes_exactly_key [of "''P001''" ?file] present
  have "\<exists>content file'. delete_patient ?file ''P001'' = (Inr (JSONResponse 200 content), file')
          \<and> file' = filter (\<lambda>(k', info). k' \<noteq> ''P001'') ?file"
    by blast
  ultimately show ?thesis
    by simp
qed

section \<open>Sort: the parameter checks\<close>

text \<open>
  Claim C7. \<open>sort_patients\<close> fails with status 400 for every \<open>sort_by\<close> other than
  height, weight and bmi, and for every \<open>order\<close> other than asc and desc whatever
  \<open>sort_by\<close> is; the file is the same afterwards.
\<close>

theorem sort_rejects_bad_parameters:
  "(sort_by \<notin> {''height'', ''weight'', ''bmi''} \<longrightarrow>
      (\<exists>detail. sort_patients C file sort_by order = (Inl (HTTPException 400 detail), file)))
   \<and> (order \<notin> {''asc'', ''desc''} \<longrightarrow>
      (\<exists>detail. sort_patients C file sort_by order = (Inl (HTTPException 400 detail), file)))"
  by (simp add: sort_patients_def valid_fields_def load_data_def)

theorem sort_rejects_bad_parameters_witness:
  "(\<exists>detail. sort_patients strict [(''P001'', [])] ''age'' ''asc'' =
       (Inl (HTTPException 400 detail), [(''P001'', [])]))
   \<and> (\<exists>detail. sort_patients strict [(''P001'', [])] ''bmi'' ''up'' =
       (Inl (HTTPException 400 detail), [(''P001'', [])]))
   \<and> (\<exists>detail. sort_patients strict [(''P001'', [])] ''age'' ''up'' =
       (Inl (HTTPException 400 detail), [(''P001'', [])]))"
proof -
  have field: "''age'' \<notin> {''height'', ''weight'', ''bmi''}" and dir: "''up'' \<notin> {''asc'', ''desc''}"
    by simp_all
  from sort_rejects_bad_parameters [of "''age''" strict "[(''P001'', [])]" "''asc''"] field
  have "\<exists>detail. sort_patients strict [(''P001'', [])] ''age'' ''asc'' =
       (Inl (HTTPException 400 detail), [(''P001'', [])])"
    by blast
  moreover from sort_rejects_bad_parameters [of "''bmi''" strict "[(''P001'', [])]" "''up''"] dir
  have "\<exists>detail. sort_patients strict [(''P001'', [])] ''bmi'' ''up'' =
       (Inl (HTTPException 400 detail), [(''P001'', [])])"
    by blast
  moreover from sort_rejects_bad_parameters [of "''age''" strict "[(''P001'', [])]" "''up''"] dir
  have "\<exists>detail. sort_patients strict [(''P001'', [])] ''age'' ''up'' =
       (Inl (HTTPException 400 detail), [(''P001'', [])])"
    by blast
  ultimately show ?thesis
    by blast
qed

section \<open>Update\<close>

lemma create_patient_Inr:
  "create_patient file p = (Inr r, file') \<Longrightarrow>
   id_f p \<notin> fst ` set file \<and> file' = file @ [(id_f p, model_dump_exclude [''id''] p)]"
  by (cases "id_f p \<in> fst ` set file")
     (simp_all add: create_patient_conflict create_patient_fresh)

lemma update_patient_absent:
  "map_of file k = None \<Longrightarrow>
   update_patient C file k u = (Inl (HTTPException 404 ''Patient not found''), file)"
  by (simp add: update_patient_def load_data_def)

lemma update_patient_present:
  "map_of file k = Some existing \<Longrightarrow>
   update_patient C file k u =
     (case Patient_init C (merged_info k u existing) of
        Inl e \<Rightarrow> (Inl e, file)
      | Inr p \<Rightarrow> (Inr (JSONResponse 200 [(''message'', JStr ''Patient updated successfully'')]),
                  AList.update k (model_dump_exclude [''id''] p) file))"
  by (simp add: update_patient_def load_data_def save_data_def merged_info_def Let_def
        split: sum.splits)


lemma update_patient_Inr:
  "update_patient C file k u = (Inr r, file') \<Longrightarrow>
   \<exists>existing p. map_of file k = Some existing
     \<and> Patient_init C (merged_info k u existing) = Inr p
     \<and> file' = AList.update k (model_dump_exclude [''id''] p) file"
  by (cases "map_of file k")
     (auto simp: update_patient_absent update_patient_present split: sum.splits)

lemma example_create:
  "create_patient [] example_patient =
     (Inr (JSONResponse 201 [(''message'', JStr ''Patient created successfully'')]),
      [(''P001'', [(''name'', JStr ''Ananya''), (''city'', JStr ''Guwahati''), (''age'', JInt 28),
          (''gender'', JStr ''Female''), (''height'', JFloat 1.65), (''weight'', JFloat 90),
          (''bmi'', JFloat 33.06), (''verdict'', JStr ''Obese'')])])"
  by code_simp

lemma example_update_result:
  "update_patient strict example_store ''P001'' example_update =
     (Inr (JSONResponse 200 [(''message'', JStr ''Patient updated successfully'')]),
      [(''P001'', [(''name'', JStr ''Ananya''), (''city'', JStr ''Guwahati''), (''age'', JInt 28),
          (''gender'', JStr ''Female''), (''height'', JFloat 1.65), (''weight'', JFloat 60),
          (''bmi'', JFloat 22.04), (''verdict'', JStr ''Normal weight'')])])"
  by code_simp

section \<open>Frame of the writes\<close>

text \<open>
  Claim C10. A successful create of id \<open>k\<close> and a successful update of id \<open>k\<close> leave
  what every other key looks up exactly as it was; only the entry of \<open>k\<close> is added or
  replaced.
\<close>

theorem writes_touch_one_key:
  "(create_patient file p = (Inr r, file') \<longrightarrow>
      map_of file' (id_f p) = Some (model_dump_exclude [''id''] p)
      \<and> (\<forall>k'. k' \<noteq> id_f p \<longrightarrow> map_of file' k' = map_of file k'))
   \<and> (update_patient C file k u = (Inr r', file'') \<longrightarrow>
      (\<exists>info. map_of file'' k = Some info)
      \<and> (\<forall>k'. k' \<noteq> k \<longrightarrow> map_of file'' k' = map_of file k'))"
proof (intro conjI impI allI)
  assume c: "create_patient file p = (Inr r, file')"
  from create_patient_Inr [OF c]
  show "map_of file' (id_f p) = Some (model_dump_exclude [''id''] p)"
    by (simp add: map_add_def map_of_fresh)
  fix k' assume "k' \<noteq> id_f p"
  with create_patient_Inr [OF c] show "map_of file' k' = map_of file k'"
    by (simp add: map_add_def split: option.splits)
next
  assume u: "update_patient C file k u = (Inr r', file'')"
  from update_patient_Inr [OF u] show "\<exists>info. map_of file'' k = Some info"
    by (auto simp: update_conv')
  fix k' assume "k' \<noteq> k"
  with update_patient_Inr [OF u] show "map_of file'' k' = map_of file k'"
    by (auto simp: update_conv')
qed

theorem writes_touch_one_key_witness:
  "(\<exists>r file'. create_patient [(''P002'', [])] example_patient = (Inr r, file')
       \<and> map_of file' ''P002'' = Some [])
   \<and> (\<exists>r file'. update_patient strict (example_store @ [(''P002'', [])]) ''P001'' example_update
                   = (Inr r, file')
       \<and> map_of file' ''P002'' = Some [])"
proof -
  let ?f = "[(''P002'', [])] :: store"
  let ?g = "example_store @ [(''P002'', [])]"
  obtain r f' where c: "create_patient ?f example_patient = (Inr r, f')"
    by (simp add: create_patient_fresh example_patient_def)
  have "fst (update_patient strict ?g ''P001'' example_update) =
          Inr (JSONResponse 200 [(''message'', JStr ''Patient updated successfully'')])"
    by code_simp
  then obtain r' g' where u: "update_patient strict ?g ''P001'' example_update = (Inr r', g')"
    by (metis prod.collapse)
  have other: "''P002'' \<noteq> id_f example_patient" "''P002'' \<noteq> ''P001''"
    by (simp_all add: example_patient_def)
  have old: "map_of ?f ''P002'' = Some []" "map_of ?g ''P002'' = Some []"
    by (simp_all add: example_store_def)
  from writes_touch_one_key [of ?f example_patient r f'] c
  have "\<forall>k'. k' \<noteq> id_f example_patient \<longrightarrow> map_of f' k' = map_of ?f k'"
    by blast
  with other old have 1: "map_of f' ''P002'' = Some []"
    by simp
  from writes_touch_one_key [of ?g _ _ _ strict "''P001''" example_update r' g'] u
  have "\<forall>k'. k' \<noteq> ''P001'' \<longrightarrow> map_of g' k' = map_of ?g k'"
    by blast
  with other old have 2: "map_of g' ''P002'' = Some []"
    by simp
  from c u 1 2 show ?thesis
    by blast
qed

section \<open>Shape of the stored records\<close>

lemma create_patient_entries:
  "set (snd (create_patient file p)) \<subseteq>
     insert (id_f p, model_dump_exclude [''id''] p) (set file)"
  by (cases "id_f p \<in> fst ` set file")
     (auto simp: create_patient_conflict create_patient_fresh)

lemma update_patient_entries:
  "(k', info) \<in> set (snd (update_patient C file k u)) \<Longrightarrow>
   (k', info) \<in> set file \<or> (\<exists>p. info = model_dump_exclude [''id''] p)"
proof (cases "map_of file k")
  case None
  assume "(k', info) \<in> set (snd (update_patient C file k u))"
  with None show ?thesis by (simp add: update_patient_absent)
next
  case (Some existing)
  assume a: "(k', info) \<in> set (snd (update_patient C file k u))"
  show ?thesis
  proof (cases "Patient_init C (merged_info k u existing)")
    case (Inl e)
    with a Some show ?thesis by (simp add: update_patient_present)
  next
    case (Inr p)
    with a Some have "(k', info) \<in> set (AList.update k (model_dump_exclude [''id''] p) file)"
      by (simp add: update_patient_present)
    then have "(k', info) \<in> insert (k, model_dump_exclude [''id''] p) (set file)"
      using set_update_subset by fast
    then show ?thesis by auto
  qed
qed

lemma delete_patient_entries: "set (snd (delete_patient file k)) \<subseteq> set file"
  using set_delete_subset [of k "file"]
  by (cases "k \<in> fst ` set file")
     (simp_all add: delete_patient_absent delete_patient_present)

lemma create_patient_preserves:
  assumes "\<forall>(k', info) \<in> set file. Q info" and "Q (model_dump_exclude [''id''] p)"
  shows "\<forall>(k', info) \<in> set (snd (create_patient file p)). Q info"
  using assms create_patient_entries [of "file" p] by fast

lemma update_patient_preserves:
  assumes "\<forall>(k', info) \<in> set file. Q info" and "\<And>p. Q (model_dump_exclude [''id''] p)"
  shows "\<forall>(k', info) \<in> set (snd (update_patient C file k u)). Q info"
  using assms update_patient_entries [of _ _ C "file" k u] by fast

lemma delete_patient_preserves:
  assumes "\<forall>(k', info) \<in> set file. Q info"
  shows "\<forall>(k', info) \<in> set (snd (delete_patient file k)). Q info"
  using assms delete_patient_entries [of "file" k] by fast

text \<open>
  Claim C1, as stated: a record persisted by create or update has exactly the fields
  name, city, age, gender, height and weight, and never bmi or verdict. It fails:
  \<open>model_dump\<close> includes the computed fields and only \<^verbatim>\<open>id\<close> is excluded, so the
  record created for the example patient carries both.
\<close>

theorem stored_record_without_bmi_counterexample:
  "snd (create_patient [] example_patient) =
     [(''P001'', [(''name'', JStr ''Ananya''), (''city'', JStr ''Guwahati''), (''age'', JInt 28),
         (''gender'', JStr ''Female''), (''height'', JFloat 1.65), (''weight'', JFloat 90),
         (''bmi'', JFloat 33.06), (''verdict'', JStr ''Obese'')])]
   \<and> map fst (snd (hd (snd (create_patient [] example_patient)))) \<noteq>
       [''name'', ''city'', ''age'', ''gender'', ''height'', ''weight'']"
  by (simp add: example_create)

text \<open>
  Claim C1, amended. A record persisted by create or update has exactly the fields name,
  city, age, gender, height, weight, bmi and verdict, in that order and without
  \<^verbatim>\<open>id\<close>; the stored bmi and verdict are the ones computed from the height and weight
  stored beside them. If every record of the store has these fields, so has every record
  after a create, an update or a delete, whatever their outcome.
\<close>

theorem written_record_fields:
  "(create_patient file p = (Inr r, file') \<longrightarrow>
      (\<exists>info. map_of file' (id_f p) = Some info
         \<and> map fst info =
             [''name'', ''city'', ''age'', ''gender'', ''height'', ''weight'', ''bmi'', ''verdict'']
         \<and> map_of info ''height'' = Some (JFloat (height p))
         \<and> map_of info ''weight'' = Some (JFloat (weight p))
         \<and> map_of info ''bmi'' = Some (JFloat (round2 (weight p / (height p)\<^sup>2)))
         \<and> map_of info ''verdict'' = Some (JStr (verdict p))))
   \<and> (update_patient C file k u = (Inr r', file'') \<longrightarrow>
      (\<exists>info q. map_of file'' k = Some info
         \<and> map fst info =
             [''name'', ''city'', ''age'', ''gender'', ''height'', ''weight'', ''bmi'', ''verdict'']
         \<and> map_of info ''height'' = Some (JFloat (height q))
         \<and> map_of info ''weight'' = Some (JFloat (weight q))
         \<and> map_of info ''bmi'' = Some (JFloat (round2 (weight q / (height q)\<^sup>2)))
         \<and> map_of info ''verdict'' = Some (JStr (verdict q))))
   \<and> ((\<forall>(k', info) \<in> set file. map fst info =
             [''name'', ''city'', ''age'', ''gender'', ''height'', ''weight'', ''bmi'', ''verdict''])
        \<longrightarrow>
          (\<forall>(k', info) \<in> set (snd (create_patient file p)). map fst info =
             [''name'', ''city'', ''age'', ''gender'', ''height'', ''weight'', ''bmi'', ''verdict''])
          \<and> (\<forall>(k', info) \<in> set (snd (update_patient C file k u)). map fst info =
             [''name'', ''city'', ''age'', ''gender'', ''height'', ''weight'', ''bmi'', ''verdict''])
          \<and> (\<forall>(k', info) \<in> set (snd (delete_patient file k)). map fst info =
             [''name'', ''city'', ''age'', ''gender'', ''height'', ''weight'', ''bmi'', ''verdict'']))"
proof (intro conjI impI)
  assume c: "create_patient file p = (Inr r, file')"
  from create_patient_Inr [OF c]
  have "map_of file' (id_f p) = Some (model_dump_exclude [''id''] p)"
    by (simp add: map_add_def map_of_fresh)
  then show "\<exists>info. map_of file' (id_f p) = Some info
         \<and> map fst info =
             [''name'', ''city'', ''age'', ''gender'', ''height'', ''weight'', ''bmi'', ''verdict'']
         \<and> map_of info ''height'' = Some (JFloat (height p))
         \<and> map_of info ''weight'' = Some (JFloat (weight p))
         \<and> map_of info ''bmi'' = Some (JFloat (round2 (weight p / (height p)\<^sup>2)))
         \<and> map_of info ''verdict'' = Some (JStr (verdict p))"
    by (simp add: dump_without_id bmi_def)
next
  assume u: "update_patient C file k u = (Inr r', file'')"
  from update_patient_Inr [OF u] obtain q
    where "file'' = AList.update k (model_dump_exclude [''id''] q) file"
    by blast
  then have "map_of file'' k = Some (model_dump_exclude [''id''] q)"
    by (simp add: update_conv')
  then have "map_of file'' k = Some (model_dump_exclude [''id''] q)
         \<and> map fst (model_dump_exclude [''id''] q) =
             [''name'', ''city'', ''age'', ''gender'', ''height'', ''weight'', ''bmi'', ''verdict'']
         \<and> map_of (model_dump_exclude [''id''] q) ''height'' = Some (JFloat (height q))
         \<and> map_of (model_dump_exclude [''id''] q) ''weight'' = Some (JFloat (weight q))
         \<and> map_of (model_dump_exclude [''id''] q) ''bmi''
             = Some (JFloat (round2 (weight q / (height q)\<^sup>2)))
         \<and> map_of (model_dump_exclude [''id''] q) ''verdict'' = Some (JStr (verdict q))"
    by (simp add: dump_without_id bmi_def)
  then show "\<exists>info q. map_of file'' k = Some info
         \<and> map fst info =
             [''name'', ''city'', ''age'', ''gender'', ''height'', ''weight'', ''bmi'', ''verdict'']
         \<and> map_of info ''height'' = Some (JFloat (height q))
         \<and> map_of info ''weight'' = Some (JFloat (weight q))
         \<and> map_of info ''bmi'' = Some (JFloat (round2 (weight q / (height q)\<^sup>2)))
         \<and> map_of info ''verdict'' = Some (JStr (verdict q))"
    apply -
    apply (rule exI [where x = "model_dump_exclude [''id''] q"])
    apply (rule exI [where x = q])
    apply assumption
    done
next
  assume inv: "\<forall>(k', info) \<in> set file. map fst info =
             [''name'', ''city'', ''age'', ''gender'', ''height'', ''weight'', ''bmi'', ''verdict'']"
  show "\<forall>(k', info) \<in> set (snd (create_patient file p)). map fst info =
             [''name'', ''city'', ''age'', ''gender'', ''height'', ''weight'', ''bmi'', ''verdict'']"
    using inv keys_dump_without_id by (rule create_patient_preserves)
  show "\<forall>(k', info) \<in> set (snd (update_patient C file k u)). map fst info =
             [''name'', ''city'', ''age'', ''gender'', ''height'', ''weight'', ''bmi'', ''verdict'']"
    using inv keys_dump_without_id by (rule update_patient_preserves)
  show "\<forall>(k', info) \<in> set (snd (delete_patient file k)). map fst info =
             [''name'', ''city'', ''age'', ''gender'', ''height'', ''weight'', ''bmi'', ''verdict'']"
    using inv by (rule delete_patient_preserves)
qed

theorem written_record_fields_witness:
  "(\<exists>info. map_of (snd (create_patient [] example_patient)) (id_f example_patient) = Some info
       \<and> map fst info =
           [''name'', ''city'', ''age'', ''gender'', ''height'', ''weight'', ''bmi'', ''verdict''])
   \<and> (\<exists>info. map_of (snd (update_patient strict example_store ''P001'' example_update)) ''P001''
                = Some info
       \<and> map fst info =
           [''name'', ''city'', ''age'', ''gender'', ''height'', ''weight'', ''bmi'', ''verdict''])
   \<and> list_all (\<lambda>(k', info). map fst info =
           [''name'', ''city'', ''age'', ''gender'', ''height'', ''weight'', ''bmi'', ''verdict''])
        (snd (delete_patient example_store ''P002''))"
proof -
  obtain r f where c: "create_patient [] example_patient = (Inr r, f)"
    by (simp add: example_create)
  obtain r' g where u: "update_patient strict example_store ''P001'' example_update = (Inr r', g)"
    by (simp add: example_update_result)
  have inv: "\<forall>(k', info) \<in> set example_store. map fst info =
           [''name'', ''city'', ''age'', ''gender'', ''height'', ''weight'', ''bmi'', ''verdict'']"
    by (simp add: example_store_def keys_dump_without_id)
  note created = written_record_fields [of "[]" example_patient r f, THEN conjunct1, THEN mp, OF c]
  note updated = written_record_fields [of example_store _ _ _ strict "''P001''" example_update r' g,
      THEN conjunct2, THEN conjunct1, THEN mp, OF u]
  note kept = written_record_fields [of example_store _ _ _ _ "''P002''",
      THEN conjunct2, THEN conjunct2, THEN mp, OF inv, THEN conjunct2, THEN conjunct2]
  from created obtain info where
    "map_of f (id_f example_patient) = Some info"
    "map fst info =
       [''name'', ''city'', ''age'', ''gender'', ''height'', ''weight'', ''bmi'', ''verdict'']"
    by (elim exE conjE)
  then have 1: "\<exists>info. map_of (snd (create_patient [] example_patient)) (id_f example_patient) = Some info
       \<and> map fst info =
           [''name'', ''city'', ''age'', ''gender'', ''height'', ''weight'', ''bmi'', ''verdict'']"
    unfolding c snd_conv by (intro exI conjI)
  from updated obtain info' where
    "map_of g ''P001'' = Some info'"
    "map fst info' =
       [''name'', ''city'', ''age'', ''gender'', ''height'', ''weight'', ''bmi'', ''verdict'']"
    by (elim exE conjE)
  then have 2: "\<exists>info. map_of (snd (update_patient strict example_store ''P001'' example_update)) ''P001''
                = Some info
       \<and> map fst info =
           [''name'', ''city'', ''age'', ''gender'', ''height'', ''weight'', ''bmi'', ''verdict'']"
    unfolding u snd_conv by (intro exI conjI)
  from kept have 3: "list_all (\<lambda>(k', info). map fst info =
           [''name'', ''city'', ''age'', ''gender'', ''height'', ''weight'', ''bmi'', ''verdict''])
        (snd (delete_patient example_store ''P002''))"
    by (simp only: list_all_iff)
  from conjI [OF 1 conjI [OF 2 3]] show ?thesis .
qed

section \<open>Derived fields\<close>








section \<open>Validation of name and city\<close>

lemma field_str_None:
  "field kw f str_validator = None \<longleftrightarrow> (\<forall>s. map_of kw f \<noteq> Some (JStr s))"
  by (auto simp: field_def str_validator_def split: option.splits json.splits)

lemma set_failed: "set (failed f r) = (if r = None then {f} else {})"
  by (cases r) (simp_all add: failed_def)

lemma Patient_init_error_fields:
  "Patient_init C kw = Inl e \<Longrightarrow>
   e = ValidationError
        (failed ''id'' (field kw ''id'' str_validator)
         @ failed ''name'' (field kw ''name'' str_validator)
         @ failed ''city'' (field kw ''city'' str_validator)
         @ failed ''age'' (field kw ''age'' (age_validator C))
         @ failed ''gender'' (field kw ''gender'' gender_validator)
         @ failed ''height'' (field kw ''height'' (positive_validator C))
         @ failed ''weight'' (field kw ''weight'' (positive_validator C)))"
  unfolding Patient_init_def Let_def
  by (simp split: if_splits)

lemma Patient_init_rejects:
  assumes "field kw ''name'' str_validator = None \<or> field kw ''city'' str_validator = None"
  shows "\<exists>fields. Patient_init C kw = Inl (ValidationError fields)"
proof (cases "Patient_init C kw")
  case (Inl e)
  then show ?thesis using Patient_init_Inl [OF Inl] by auto
next
  case (Inr p)
  then show ?thesis using assms by (simp add: Patient_init_Inr)
qed

text \<open>
  Claim C3, as stated: construction fails with a \<open>ValidationError\<close> whenever name or
  city is the empty string. It fails: the two fields are declared \<^verbatim>\<open>str\<close> with no
  minimum length, so a payload whose name and city are both empty is accepted.
\<close>

theorem empty_name_rejected_counterexample:
  "Patient_init strict
     [(''id'', JStr ''P001''), (''name'', JStr ''''), (''city'', JStr ''''), (''age'', JInt 28),
      (''gender'', JStr ''Female''), (''height'', JFloat 1.65), (''weight'', JFloat 90)]
   = Inr \<lparr>id_f = ''P001'', name = '''', city = '''', age = 28, gender = ''Female'',
          height = 1.65, weight = 90\<rparr>"
  by code_simp

text \<open>
  Claim C3, amended. Construction fails with a \<open>ValidationError\<close> whenever name or city
  is missing or is not a string, and the error names exactly those of the two fields that
  are; every accepted \<open>Patient\<close> has the name and the city that were submitted, and the
  empty string is accepted for either.
\<close>

theorem name_and_city_must_be_strings:
  "(((\<forall>s. map_of kw ''name'' \<noteq> Some (JStr s)) \<or> (\<forall>s. map_of kw ''city'' \<noteq> Some (JStr s)))
      \<longrightarrow> (\<exists>fields. Patient_init C kw = Inl (ValidationError fields)))
   \<and> (\<forall>fields. Patient_init C kw = Inl (ValidationError fields) \<longrightarrow>
         (''name'' \<in> set fields \<longleftrightarrow> (\<forall>s. map_of kw ''name'' \<noteq> Some (JStr s)))
         \<and> (''city'' \<in> set fields \<longleftrightarrow> (\<forall>s. map_of kw ''city'' \<noteq> Some (JStr s))))
   \<and> (\<forall>p. Patient_init C kw = Inr p \<longrightarrow>
         map_of kw ''name'' = Some (JStr (name p)) \<and> map_of kw ''city'' = Some (JStr (city p)))"
proof (intro conjI impI allI)
  assume "(\<forall>s. map_of kw ''name'' \<noteq> Some (JStr s)) \<or> (\<forall>s. map_of kw ''city'' \<noteq> Some (JStr s))"
  then have "field kw ''name'' str_validator = None \<or> field kw ''city'' str_validator = None"
    by (simp add: field_str_None)
  then show "\<exists>fields. Patient_init C kw = Inl (ValidationError fields)"
    by (rule Patient_init_rejects)
next
  fix fields assume e: "Patient_init C kw = Inl (ValidationError fields)"
  note f = Patient_init_error_fields [OF e]
  from f show "''name'' \<in> set fields \<longleftrightarrow> (\<forall>s. map_of kw ''name'' \<noteq> Some (JStr s))"
    by (simp add: set_failed field_str_None)
  from f show "''city'' \<in> set fields \<longleftrightarrow> (\<forall>s. map_of kw ''city'' \<noteq> Some (JStr s))"
    by (simp add: set_failed field_str_None)
next
  fix p assume "Patient_init C kw = Inr p"
  then show "map_of kw ''name'' = Some (JStr (name p))" "map_of kw ''city'' = Some (JStr (city p))"
    by (simp_all add: Patient_init_Inr field_str)
qed

theorem name_and_city_must_be_strings_witness:
  "(\<exists>fields. Patient_init strict
        [(''id'', JStr ''P001''), (''name'', JInt 7), (''age'', JInt 28),
         (''gender'', JStr ''Female''), (''height'', JFloat 1.65), (''weight'', JFloat 90)]
      = Inl (ValidationError fields) \<and> ''name'' \<in> set fields \<and> ''city'' \<in> set fields)
   \<and> map_of (model_dump example_patient) ''name'' = Some (JStr (name example_patient))
   \<and> map_of (model_dump example_patient) ''city'' = Some (JStr (city example_patient))"
proof -
  let ?kw = "[(''id'', JStr ''P001''), (''name'', JInt 7), (''age'', JInt 28),
         (''gender'', JStr ''Female''), (''height'', JFloat 1.65), (''weight'', JFloat 90)]"
  have bad: "(\<forall>s. map_of ?kw ''name'' \<noteq> Some (JStr s))" "(\<forall>s. map_of ?kw ''city'' \<noteq> Some (JStr s))"
    by simp_all
  note t = name_and_city_must_be_strings [of ?kw strict]
  from t bad obtain fields where e: "Patient_init strict ?kw = Inl (ValidationError fields)"
    by blast
  from t e bad have "''name'' \<in> set fields" "''city'' \<in> set fields"
    by blast+
  with e have 1: "\<exists>fields. Patient_init strict ?kw = Inl (ValidationError fields)
      \<and> ''name'' \<in> set fields \<and> ''city'' \<in> set fields"
    by blast
  have ok: "Patient_init strict (model_dump example_patient) = Inr example_patient"
    by code_simp
  from name_and_city_must_be_strings [of "model_dump example_patient" strict] ok
  have 2: "map_of (model_dump example_patient) ''name'' = Some (JStr (name example_patient))
    \<and> map_of (model_dump example_patient) ''city'' = Some (JStr (city example_patient))"
    by blast
  from conjI [OF 1 2] show ?thesis .
qed

section \<open>Create, then view\<close>




section \<open>Sort: the ordering\<close>













section \<open>Update: merge, validation and storing\<close>


lemma payload_other:
  "f \<notin> {''name'', ''city'', ''age'', ''gender'', ''height'', ''weight''} \<Longrightarrow>
   map_of (model_dump_exclude_unset u) f = None"
  by (simp add: model_dump_exclude_unset_def map_add_def map_of_dump_set)




end
